theory Spec2Isabelle
  imports Main
begin

section \<open>The WebAssembly bootstrap scripts\<close>

text \<open>
  The repository holds three bootstrap scripts: \<^verbatim>\<open>src/main.js\<close> contains two of them one
  after the other (the shared-memory script that starts a worker pool, then the script of the
  "white mode" build) and \<^verbatim>\<open>src/unnamed/part_000\<close> is the third. Each one logs whether
  \<^verbatim>\<open>SharedArrayBuffer\<close> exists, calls the default export \<^verbatim>\<open>init\<close> of the generated glue
  module and, in the callback attached with \<^verbatim>\<open>.then\<close>, calls \<^verbatim>\<open>wasm_main\<close> when the glue
  module exports it.

  The scripts are embedded as functions from the host environment (what the browser and the
  imported glue module do when called) to the chronological trace of what the script does and
  observes, together with the fate of the last promise of its chain.
\<close>

subsection \<open>Values\<close>

text \<open>The JavaScript values that the scripts build, pass or log.\<close>

datatype jsval =
    JUndefined
  | JBool bool
  | JNum nat
  | JStr string
  | JObj "(string \<times> jsval) list"  \<comment> \<open>an object literal, properties in source order\<close>
  | JURL string string  \<comment> \<open>\<^verbatim>\<open>new URL(relative, base)\<close>\<close>
  | JMemory jsval  \<comment> \<open>the object built by \<^verbatim>\<open>new WebAssembly.Memory(descriptor)\<close>\<close>
  | JError string  \<comment> \<open>an error value, by its message\<close>

text \<open>How a synchronous call completes, and how a promise ends up.\<close>

datatype 'a completion = Throws jsval | Returns 'a

datatype 'a fate = Fulfilled 'a | Rejected jsval | Pending

subsection \<open>The host environment\<close>

text \<open>
  The glue module \<^verbatim>\<open>prezentare_licenta.js\<close> is generated by the build and is not part of the
  sources, so what its exports do is a parameter: \<open>init_default\<close> is the default export
  (\<^verbatim>\<open>import init\<close>), the other two are read from the namespace object
  (\<^verbatim>\<open>import * as wasm\<close>). A promise-returning export either throws synchronously or returns a
  promise with some fate; \<open>wasm_main\<close> is \<open>None\<close> when the module does not export it.
\<close>

record glue_module =
  init_default :: "jsval list \<Rightarrow> unit fate completion"
  initThreadPool :: "jsval list \<Rightarrow> unit fate completion"
  wasm_main :: "(jsval list \<Rightarrow> unit completion) option"

record host =
  SharedArrayBuffer_defined :: bool  \<comment> \<open>\<^verbatim>\<open>typeof SharedArrayBuffer !== "undefined"\<close>\<close>
  import_meta_url :: string
  Memory_ctor_throws :: "jsval \<Rightarrow> jsval option"
    \<comment> \<open>\<^verbatim>\<open>new WebAssembly.Memory(d)\<close>: \<open>Some e\<close> when the constructor throws \<open>e\<close>\<close>
  resolve_import :: "string \<Rightarrow> glue_module"  \<comment> \<open>the module an import specifier names\<close>

subsection \<open>Traces\<close>

datatype callee = WebAssembly_Memory | Init | InitThreadPool | Wasm_main

datatype event =
    Console_log "jsval list"
  | Console_error "jsval list"
  | Invoke callee "jsval list"  \<comment> \<open>the script calls a host function with these arguments\<close>
  | Returned callee  \<comment> \<open>the call returned normally\<close>
  | Threw callee jsval  \<comment> \<open>the call threw\<close>
  | Resolved callee  \<comment> \<open>the promise returned by the call was fulfilled\<close>
  | Rejected_with callee jsval  \<comment> \<open>the promise returned by the call was rejected\<close>
  | Tested_wasm_main bool  \<comment> \<open>\<^verbatim>\<open>if (wasm.wasm_main)\<close> was evaluated, with its truthiness\<close>

type_synonym trace = "event list"

text \<open>
  A piece of script is an action on the trace so far. Its fate is \<open>Fulfilled\<close> when it ran to
  its end, \<open>Rejected e\<close> when the exception or rejection \<open>e\<close> left it, and \<open>Pending\<close> when it
  waits for a promise that never settles.
\<close>

type_synonym 'a act = "trace \<Rightarrow> 'a fate \<times> trace"

definition return_act :: "'a \<Rightarrow> 'a act" where
  "return_act v t = (Fulfilled v, t)"

definition throw_act :: "jsval \<Rightarrow> 'a act" where
  "throw_act e t = (Rejected e, t)"

definition emit :: "event \<Rightarrow> unit act" where
  "emit ev t = (Fulfilled (), t @ [ev])"

definition bind_act :: "'a act \<Rightarrow> ('a \<Rightarrow> 'b act) \<Rightarrow> 'b act" where
  "bind_act m f t =
     (case m t of
        (Fulfilled v, t') \<Rightarrow> f v t'
      | (Rejected e, t') \<Rightarrow> (Rejected e, t')
      | (Pending, t') \<Rightarrow> (Pending, t'))"

definition seq :: "unit act \<Rightarrow> 'a act \<Rightarrow> 'a act" where
  "seq m k = bind_act m (\<lambda>_. k)"

definition console_log :: "jsval list \<Rightarrow> unit act" where
  "console_log args = emit (Console_log args)"

definition console_error :: "jsval list \<Rightarrow> unit act" where
  "console_error args = emit (Console_error args)"

text \<open>A synchronous call of a host function: the call, then its return or its exception.\<close>

definition call_sync :: "callee \<Rightarrow> jsval list \<Rightarrow> 'a completion \<Rightarrow> 'a act" where
  "call_sync c args r =
     seq (emit (Invoke c args))
       (case r of
          Throws e \<Rightarrow> seq (emit (Threw c e)) (throw_act e)
        | Returns v \<Rightarrow> seq (emit (Returned c)) (return_act v))"

text \<open>
  A promise is the action of waiting for it: it records the settlement when there is one.
  A call of a promise-returning function is a synchronous call whose value is that promise.
\<close>

definition settle :: "callee \<Rightarrow> unit fate \<Rightarrow> unit act" where
  "settle c f t =
     (case f of
        Fulfilled v \<Rightarrow> (Fulfilled v, t @ [Resolved c])
      | Rejected e \<Rightarrow> (Rejected e, t @ [Rejected_with c e])
      | Pending \<Rightarrow> (Pending, t))"

definition call_promise :: "callee \<Rightarrow> jsval list \<Rightarrow> unit fate completion \<Rightarrow> (unit act) act" where
  "call_promise c args r =
     seq (emit (Invoke c args))
       (case r of
          Throws e \<Rightarrow> seq (emit (Threw c e)) (throw_act e)
        | Returns f \<Rightarrow> seq (emit (Returned c)) (return_act (settle c f)))"

text \<open>
  \<^verbatim>\<open>p.then(f)\<close> runs \<open>f\<close> once \<open>p\<close> is fulfilled and takes the fate of \<open>f\<close>; a rejected or
  pending \<open>p\<close> skips \<open>f\<close>. \<^verbatim>\<open>p.catch(g)\<close> runs \<open>g\<close> on the reason once \<open>p\<close> is rejected.
  \<^verbatim>\<open>await p\<close> inside an async function waits for \<open>p\<close> and rethrows its rejection.
\<close>

definition promise_then :: "'a act \<Rightarrow> ('a \<Rightarrow> 'b act) \<Rightarrow> 'b act" where
  "promise_then p on_fulfilled = bind_act p on_fulfilled"

definition promise_catch :: "'a act \<Rightarrow> (jsval \<Rightarrow> 'a act) \<Rightarrow> 'a act" where
  "promise_catch p on_rejected t =
     (case p t of
        (Rejected e, t') \<Rightarrow> on_rejected e t'
      | (Fulfilled v, t') \<Rightarrow> (Fulfilled v, t')
      | (Pending, t') \<Rightarrow> (Pending, t'))"

definition await :: "'a act \<Rightarrow> 'a act" where
  "await p = p"

definition new_WebAssembly_Memory :: "host \<Rightarrow> jsval \<Rightarrow> jsval act" where
  "new_WebAssembly_Memory h d =
     call_sync WebAssembly_Memory [d]
       (case Memory_ctor_throws h d of Some e \<Rightarrow> Throws e | None \<Rightarrow> Returns (JMemory d))"

subsection \<open>The three scripts\<close>

text \<open>
  \<^verbatim>\<open>if (wasm.wasm_main) { wasm.wasm_main(); console.log("wasm_main called"); }\<close>
  is the same statement in all three scripts.
\<close>

definition if_wasm_main :: "glue_module \<Rightarrow> unit act" where
  "if_wasm_main wasm =
     seq (emit (Tested_wasm_main (wasm_main wasm \<noteq> None)))
       (case wasm_main wasm of
          None \<Rightarrow> return_act ()
        | Some f \<Rightarrow>
            seq (call_sync Wasm_main [] (f []))
              (console_log [JStr ''wasm_main called'']))"

text \<open>\<^verbatim>\<open>src/main.js\<close>, first script: shared memory and a worker pool, no \<^verbatim>\<open>.catch\<close>.\<close>

definition main_js_shared :: "host \<Rightarrow> unit act" where
  "main_js_shared h =
     (let wasm = resolve_import h ''./pkg/prezentare_licenta.js'' in
      seq (console_log [JStr ''SharedArrayBuffer available:'', JBool (SharedArrayBuffer_defined h)])
     (bind_act (return_act (JURL ''./pkg/prezentare_licenta.wasm'' (import_meta_url h))) (\<lambda>url.
      bind_act (new_WebAssembly_Memory h
                  (JObj [(''initial'', JNum 200), (''maximum'', JNum 16384), (''shared'', JBool True)]))
        (\<lambda>mem.
      bind_act (call_promise Init [JObj [(''module'', url), (''memory'', mem)]]
                  (init_default wasm [JObj [(''module'', url), (''memory'', mem)]])) (\<lambda>p.
      promise_then p (\<lambda>_.
        seq (console_log [JStr ''WASM module initialized''])
       (bind_act (call_promise InitThreadPool [JNum 2] (initThreadPool wasm [JNum 2])) (\<lambda>q.
        seq (await q)
       (if_wasm_main wasm)))))))))"

text \<open>\<^verbatim>\<open>src/main.js\<close>, second script: the white-mode build, with a \<^verbatim>\<open>.catch\<close>.\<close>

definition main_js_white_mode :: "host \<Rightarrow> unit act" where
  "main_js_white_mode h =
     (let wasm = resolve_import h ''./pkg_white_mode/prezentare_licenta.js'' in
      seq (console_log [JStr ''SharedArrayBuffer available:'', JBool (SharedArrayBuffer_defined h)])
     (bind_act (call_promise Init [] (init_default wasm [])) (\<lambda>p.
      promise_catch
        (promise_then p (\<lambda>_.
           seq (console_log [JStr ''WASM module initialized''])
          (if_wasm_main wasm)))
        (\<lambda>error. console_error [JStr ''Failed to initialize WASM:'', error]))))"

text \<open>\<^verbatim>\<open>src/unnamed/part_000\<close>: the same as the white-mode script, on the default build.\<close>

definition part_000 :: "host \<Rightarrow> unit act" where
  "part_000 h =
     (let wasm = resolve_import h ''./pkg/prezentare_licenta.js'' in
      seq (console_log [JStr ''SharedArrayBuffer available:'', JBool (SharedArrayBuffer_defined h)])
     (bind_act (call_promise Init [] (init_default wasm [])) (\<lambda>p.
      promise_catch
        (promise_then p (\<lambda>_.
           seq (console_log [JStr ''WASM module initialized''])
          (if_wasm_main wasm)))
        (\<lambda>error. console_error [JStr ''Failed to initialize WASM:'', error]))))"

datatype variant = Shared_memory | White_mode | Plain

fun script :: "variant \<Rightarrow> host \<Rightarrow> unit act" where
  "script Shared_memory h = main_js_shared h"
| "script White_mode h = main_js_white_mode h"
| "script Plain h = part_000 h"

fun glue :: "variant \<Rightarrow> host \<Rightarrow> glue_module" where
  "glue Shared_memory h = resolve_import h ''./pkg/prezentare_licenta.js''"
| "glue White_mode h = resolve_import h ''./pkg_white_mode/prezentare_licenta.js''"
| "glue Plain h = resolve_import h ''./pkg/prezentare_licenta.js''"

text \<open>A run starts from the empty trace.\<close>

definition run :: "variant \<Rightarrow> host \<Rightarrow> unit fate \<times> trace" where
  "run v h = script v h []"

definition trace_of :: "variant \<Rightarrow> host \<Rightarrow> trace" where
  "trace_of v h = snd (run v h)"

definition outcome :: "variant \<Rightarrow> host \<Rightarrow> unit fate" where
  "outcome v h = fst (run v h)"

subsection \<open>Reading traces\<close>

text \<open>The line that the capability probe logs, for a given result of the probe.\<close>

definition probe_line :: "bool \<Rightarrow> event" where
  "probe_line b = Console_log [JStr ''SharedArrayBuffer available:'', JBool b]"

text \<open>An event is a call of the given host function, whatever the arguments.\<close>

fun invokes :: "callee \<Rightarrow> event \<Rightarrow> bool" where
  "invokes c (Invoke c' args) = (c = c')"
| "invokes c _ = False"

text \<open>An event is a line written with \<^verbatim>\<open>console.error\<close>.\<close>

fun is_console_error :: "event \<Rightarrow> bool" where
  "is_console_error (Console_error args) = True"
| "is_console_error _ = False"

text \<open>An event is the existence test of \<^verbatim>\<open>wasm_main\<close> or a call of it.\<close>

fun concerns_wasm_main :: "event \<Rightarrow> bool" where
  "concerns_wasm_main (Tested_wasm_main b) = True"
| "concerns_wasm_main (Invoke c args) = (c = Wasm_main)"
| "concerns_wasm_main _ = False"

text \<open>Reading the trace from its start, no event satisfying \<open>P\<close> comes before the event \<open>a\<close>.\<close>

fun only_after :: "event \<Rightarrow> (event \<Rightarrow> bool) \<Rightarrow> trace \<Rightarrow> bool" where
  "only_after a P [] = True"
| "only_after a P (x # xs) = (x = a \<or> (\<not> P x \<and> only_after a P xs))"

text \<open>Every occurrence of \<open>a\<close> has a next event, and it is \<open>b\<close>.\<close>

fun each_followed_by :: "event \<Rightarrow> event \<Rightarrow> trace \<Rightarrow> bool" where
  "each_followed_by a b [] = True"
| "each_followed_by a b [x] = (x \<noteq> a)"
| "each_followed_by a b (x # y # zs) = ((x \<noteq> a \<or> y = b) \<and> each_followed_by a b (y # zs))"

text \<open>What the trace holds after the first occurrence of an event.\<close>

definition events_after :: "event \<Rightarrow> trace \<Rightarrow> trace" where
  "events_after a t = tl (dropWhile (\<lambda>x. x \<noteq> a) t)"

subsection \<open>Sample hosts\<close>

text \<open>
  A host on which everything succeeds, and variations of it where one call fails or
  \<^verbatim>\<open>wasm_main\<close> is not exported. The same glue module stands behind every import specifier.
\<close>

definition glue_ok :: glue_module where
  "glue_ok =
     \<lparr>init_default = (\<lambda>args. Returns (Fulfilled ())),
      initThreadPool = (\<lambda>args. Returns (Fulfilled ())),
      wasm_main = Some (\<lambda>args. Returns ())\<rparr>"

definition host_with :: "glue_module \<Rightarrow> host" where
  "host_with g =
     \<lparr>SharedArrayBuffer_defined = True,
      import_meta_url = ''https://example.org/main.js'',
      Memory_ctor_throws = (\<lambda>d. None),
      resolve_import = (\<lambda>specifier. g)\<rparr>"

definition host_ok :: host where
  "host_ok = host_with glue_ok"

definition host_init_rejects :: host where
  "host_init_rejects =
     host_with (glue_ok\<lparr>init_default := (\<lambda>args. Returns (Rejected (JError ''network error'')))\<rparr>)"

definition host_pool_rejects :: host where
  "host_pool_rejects =
     host_with (glue_ok\<lparr>initThreadPool := (\<lambda>args. Returns (Rejected (JError ''no workers'')))\<rparr>)"

definition host_pool_pending :: host where
  "host_pool_pending =
     host_with (glue_ok\<lparr>initThreadPool := (\<lambda>args. Returns Pending)\<rparr>)"

definition host_no_wasm_main :: host where
  "host_no_wasm_main = host_with (glue_ok\<lparr>wasm_main := None\<rparr>)"

definition host_no_wasm_main_pool_rejects :: host where
  "host_no_wasm_main_pool_rejects =
     host_with (glue_ok\<lparr>initThreadPool := (\<lambda>args. Returns (Rejected (JError ''no workers''))),
                       wasm_main := None\<rparr>)"

definition host_wasm_main_throws :: host where
  "host_wasm_main_throws =
     host_with (glue_ok\<lparr>wasm_main := Some (\<lambda>args. Throws (JError ''unreachable''))\<rparr>)"

section \<open>Properties of the scripts\<close>

subsection \<open>Unfolding a run, and reading a trace by position\<close>

lemmas run_defs = run_def trace_of_def outcome_def main_js_shared_def main_js_white_mode_def
  part_000_def if_wasm_main_def new_WebAssembly_Memory_def call_promise_def call_sync_def
  settle_def promise_then_def promise_catch_def await_def console_log_def console_error_def
  seq_def bind_act_def emit_def return_act_def throw_act_def Let_def probe_line_def

lemmas run_splits = completion.splits fate.splits option.splits

lemmas host_defs = host_ok_def host_init_rejects_def host_pool_rejects_def host_pool_pending_def
  host_no_wasm_main_def host_no_wasm_main_pool_rejects_def host_wasm_main_throws_def
  host_with_def glue_ok_def

lemma only_after_nth:
  "only_after a P t \<Longrightarrow> \<not> P a \<Longrightarrow> i < length t \<Longrightarrow> P (t ! i) \<Longrightarrow> \<exists>j<i. t ! j = a"
proof (induction t arbitrary: i)
  case Nil
  then show ?case by simp
next
  case (Cons x xs)
  show ?case
  proof (cases i)
    case 0
    with Cons.prems show ?thesis by auto
  next
    case (Suc k)
    show ?thesis
    proof (cases "x = a")
      case True
      with Suc show ?thesis by auto
    next
      case False
      with Cons.prems Suc have "only_after a P xs" "k < length xs" "P (xs ! k)" by auto
      from Cons.IH[OF this(1) Cons.prems(2) this(2,3)] obtain j where "j < k" "xs ! j = a" by blast
      then have "Suc j < i" "(x # xs) ! Suc j = a" using Suc by auto
      then show ?thesis by blast
    qed
  qed
qed

lemma each_followed_by_nth:
  "each_followed_by a b t \<Longrightarrow> i < length t \<Longrightarrow> t ! i = a \<Longrightarrow> Suc i < length t \<and> t ! Suc i = b"
proof (induction a b t arbitrary: i rule: each_followed_by.induct)
  case (1 a b)
  then show ?case by simp
next
  case (2 a b x)
  then show ?case by simp
next
  case (3 a b x y zs)
  show ?case
  proof (cases i)
    case 0
    with "3.prems" show ?thesis by auto
  next
    case (Suc k)
    with "3.prems" have "each_followed_by a b (y # zs)" "k < length (y # zs)" "(y # zs) ! k = a" by auto
    from "3.IH"[OF this] show ?thesis using Suc by simp
  qed
qed


subsection \<open>All the runs of a script\<close>

text \<open>
  Every run of the shared-memory script is one of ten, by what the host does at each call;
  every run of the two other scripts is one of six.
\<close>

lemma shared_run_cases:
  fixes h :: host
  defines "g \<equiv> resolve_import h ''./pkg/prezentare_licenta.js''"
    and "d \<equiv> JObj [(''initial'', JNum 200), (''maximum'', JNum 16384), (''shared'', JBool True)]"
  defines "cfg \<equiv> JObj [(''module'', JURL ''./pkg/prezentare_licenta.wasm'' (import_meta_url h)),
                         (''memory'', JMemory d)]"
  defines "t1 \<equiv> [probe_line (SharedArrayBuffer_defined h), Invoke WebAssembly_Memory [d]]"
  defines "t2 \<equiv> t1 @ [Returned WebAssembly_Memory, Invoke Init [cfg]]"
  defines "t3 \<equiv> t2 @ [Returned Init, Resolved Init, Console_log [JStr ''WASM module initialized''],
                        Invoke InitThreadPool [JNum 2]]"
  defines "t4 \<equiv> t3 @ [Returned InitThreadPool, Resolved InitThreadPool]"
  obtains
    (memory_throws) e where
      "Memory_ctor_throws h d = Some e"
      "run Shared_memory h = (Rejected e, t1 @ [Threw WebAssembly_Memory e])"
  | (init_throws) e where
      "Memory_ctor_throws h d = None" "init_default g [cfg] = Throws e"
      "run Shared_memory h = (Rejected e, t2 @ [Threw Init e])"
  | (init_pending)
      "Memory_ctor_throws h d = None" "init_default g [cfg] = Returns Pending"
      "run Shared_memory h = (Pending, t2 @ [Returned Init])"
  | (init_rejects) e where
      "Memory_ctor_throws h d = None" "init_default g [cfg] = Returns (Rejected e)"
      "run Shared_memory h = (Rejected e, t2 @ [Returned Init, Rejected_with Init e])"
  | (pool_throws) e where
      "Memory_ctor_throws h d = None" "init_default g [cfg] = Returns (Fulfilled ())"
      "initThreadPool g [JNum 2] = Throws e"
      "run Shared_memory h = (Rejected e, t3 @ [Threw InitThreadPool e])"
  | (pool_pending)
      "Memory_ctor_throws h d = None" "init_default g [cfg] = Returns (Fulfilled ())"
      "initThreadPool g [JNum 2] = Returns Pending"
      "run Shared_memory h = (Pending, t3 @ [Returned InitThreadPool])"
  | (pool_rejects) e where
      "Memory_ctor_throws h d = None" "init_default g [cfg] = Returns (Fulfilled ())"
      "initThreadPool g [JNum 2] = Returns (Rejected e)"
      "run Shared_memory h =
         (Rejected e, t3 @ [Returned InitThreadPool, Rejected_with InitThreadPool e])"
  | (no_wasm_main)
      "Memory_ctor_throws h d = None" "init_default g [cfg] = Returns (Fulfilled ())"
      "initThreadPool g [JNum 2] = Returns (Fulfilled ())" "wasm_main g = None"
      "run Shared_memory h = (Fulfilled (), t4 @ [Tested_wasm_main False])"
  | (wasm_main_throws) f e where
      "Memory_ctor_throws h d = None" "init_default g [cfg] = Returns (Fulfilled ())"
      "initThreadPool g [JNum 2] = Returns (Fulfilled ())" "wasm_main g = Some f"
      "f [] = Throws e"
      "run Shared_memory h =
         (Rejected e, t4 @ [Tested_wasm_main True, Invoke Wasm_main [], Threw Wasm_main e])"
  | (wasm_main_returns) f where
      "Memory_ctor_throws h d = None" "init_default g [cfg] = Returns (Fulfilled ())"
      "initThreadPool g [JNum 2] = Returns (Fulfilled ())" "wasm_main g = Some f"
      "f [] = Returns ()"
      "run Shared_memory h =
         (Fulfilled (), t4 @ [Tested_wasm_main True, Invoke Wasm_main [], Returned Wasm_main,
                              Console_log [JStr ''wasm_main called'']])"
proof (cases "Memory_ctor_throws h d")
  case (Some e)
  then have "run Shared_memory h = (Rejected e, t1 @ [Threw WebAssembly_Memory e])"
    by (simp add: run_defs assms)
  with Some show ?thesis by (rule memory_throws)
next
  case None
  note mem = None
  show ?thesis
  proof (cases "init_default g [cfg]")
    case (Throws e)
    with mem have "run Shared_memory h = (Rejected e, t2 @ [Threw Init e])"
      by (simp add: run_defs assms)
    with mem Throws show ?thesis by (rule init_throws)
  next
    case (Returns p)
    note ini = Returns
    show ?thesis
    proof (cases p)
      case Pending
      with mem ini have "run Shared_memory h = (Pending, t2 @ [Returned Init])"
        by (simp add: run_defs assms)
      with mem ini Pending show ?thesis using init_pending by simp
    next
      case (Rejected e)
      with mem ini have "run Shared_memory h = (Rejected e, t2 @ [Returned Init, Rejected_with Init e])"
        by (simp add: run_defs assms)
      with mem ini Rejected show ?thesis using init_rejects by simp
    next
      case (Fulfilled u)
      with ini have ini': "init_default g [cfg] = Returns (Fulfilled ())" by simp
      show ?thesis
      proof (cases "initThreadPool g [JNum 2]")
        case (Throws e)
        with mem ini' have "run Shared_memory h = (Rejected e, t3 @ [Threw InitThreadPool e])"
          by (simp add: run_defs assms)
        with mem ini' Throws show ?thesis by (rule pool_throws)
      next
        case (Returns q)
        note pool = Returns
        show ?thesis
        proof (cases q)
          case Pending
          with mem ini' pool have "run Shared_memory h = (Pending, t3 @ [Returned InitThreadPool])"
            by (simp add: run_defs assms)
          with mem ini' pool Pending show ?thesis using pool_pending by simp
        next
          case (Rejected e)
          with mem ini' pool have "run Shared_memory h =
              (Rejected e, t3 @ [Returned InitThreadPool, Rejected_with InitThreadPool e])"
            by (simp add: run_defs assms)
          with mem ini' pool Rejected show ?thesis using pool_rejects by simp
        next
          case (Fulfilled u')
          with pool have pool': "initThreadPool g [JNum 2] = Returns (Fulfilled ())" by simp
          show ?thesis
          proof (cases "wasm_main g")
            case None
            with mem ini' pool' have "run Shared_memory h = (Fulfilled (), t4 @ [Tested_wasm_main False])"
              by (simp add: run_defs assms)
            with mem ini' pool' None show ?thesis by (rule no_wasm_main)
          next
            case (Some f)
            show ?thesis
            proof (cases "f []")
              case (Throws e)
              with mem ini' pool' Some have "run Shared_memory h =
                  (Rejected e, t4 @ [Tested_wasm_main True, Invoke Wasm_main [], Threw Wasm_main e])"
                by (simp add: run_defs assms)
              with mem ini' pool' Some Throws show ?thesis by (rule wasm_main_throws)
            next
              case (Returns u'')
              then have ret: "f [] = Returns ()" by simp
              with mem ini' pool' Some have "run Shared_memory h =
                  (Fulfilled (), t4 @ [Tested_wasm_main True, Invoke Wasm_main [], Returned Wasm_main,
                              Console_log [JStr ''wasm_main called'']])"
                by (simp add: run_defs assms)
              with mem ini' pool' Some ret show ?thesis by (rule wasm_main_returns)
            qed
          qed
        qed
      qed
    qed
  qed
qed


lemma simple_run_cases:
  fixes v :: variant and h :: host
  assumes "v \<noteq> Shared_memory"
  defines "g \<equiv> glue v h"
  defines "t1 \<equiv> [probe_line (SharedArrayBuffer_defined h), Invoke Init []]"
  defines "t2 \<equiv> t1 @ [Returned Init, Resolved Init, Console_log [JStr ''WASM module initialized'']]"
  obtains
    (init_throws) e where
      "init_default g [] = Throws e"
      "run v h = (Rejected e, t1 @ [Threw Init e])"
  | (init_pending)
      "init_default g [] = Returns Pending"
      "run v h = (Pending, t1 @ [Returned Init])"
  | (init_rejects) e where
      "init_default g [] = Returns (Rejected e)"
      "run v h =
         (Fulfilled (), t1 @ [Returned Init, Rejected_with Init e,
                              Console_error [JStr ''Failed to initialize WASM:'', e]])"
  | (no_wasm_main)
      "init_default g [] = Returns (Fulfilled ())" "wasm_main g = None"
      "run v h = (Fulfilled (), t2 @ [Tested_wasm_main False])"
  | (wasm_main_throws) f e where
      "init_default g [] = Returns (Fulfilled ())" "wasm_main g = Some f" "f [] = Throws e"
      "run v h =
         (Fulfilled (), t2 @ [Tested_wasm_main True, Invoke Wasm_main [], Threw Wasm_main e,
                              Console_error [JStr ''Failed to initialize WASM:'', e]])"
  | (wasm_main_returns) f where
      "init_default g [] = Returns (Fulfilled ())" "wasm_main g = Some f" "f [] = Returns ()"
      "run v h =
         (Fulfilled (), t2 @ [Tested_wasm_main True, Invoke Wasm_main [], Returned Wasm_main,
                              Console_log [JStr ''wasm_main called'']])"
proof -
  have script: "script v h = part_000 (h\<lparr>resolve_import := \<lambda>s. g\<rparr>)"
    using assms(1) by (cases v) (simp_all add: g_def main_js_white_mode_def part_000_def)
  show ?thesis
  proof (cases "init_default g []")
    case (Throws e)
    then have "run v h = (Rejected e, t1 @ [Threw Init e])"
      by (simp add: script run_defs t1_def)
    with Throws show ?thesis by (rule init_throws)
  next
    case (Returns p)
    note ini = Returns
    show ?thesis
    proof (cases p)
      case Pending
      with ini have "run v h = (Pending, t1 @ [Returned Init])"
        by (simp add: script run_defs t1_def)
      with ini Pending show ?thesis using init_pending by simp
    next
      case (Rejected e)
      with ini have "run v h =
          (Fulfilled (), t1 @ [Returned Init, Rejected_with Init e,
                               Console_error [JStr ''Failed to initialize WASM:'', e]])"
        by (simp add: script run_defs t1_def)
      with ini Rejected show ?thesis using init_rejects by simp
    next
      case (Fulfilled u)
      with ini have ini': "init_default g [] = Returns (Fulfilled ())" by simp
      show ?thesis
      proof (cases "wasm_main g")
        case None
        with ini' have "run v h = (Fulfilled (), t2 @ [Tested_wasm_main False])"
          by (simp add: script run_defs t1_def t2_def)
        with ini' None show ?thesis by (rule no_wasm_main)
      next
        case (Some f)
        show ?thesis
        proof (cases "f []")
          case (Throws e)
          with ini' Some have "run v h =
              (Fulfilled (), t2 @ [Tested_wasm_main True, Invoke Wasm_main [], Threw Wasm_main e,
                                   Console_error [JStr ''Failed to initialize WASM:'', e]])"
            by (simp add: script run_defs t1_def t2_def)
          with ini' Some Throws show ?thesis by (rule wasm_main_throws)
        next
          case (Returns u')
          then have ret: "f [] = Returns ()" by simp
          with ini' Some have "run v h =
              (Fulfilled (), t2 @ [Tested_wasm_main True, Invoke Wasm_main [], Returned Wasm_main,
                                   Console_log [JStr ''wasm_main called'']])"
            by (simp add: script run_defs t1_def t2_def)
          with ini' Some ret show ?thesis by (rule wasm_main_returns)
        qed
      qed
    qed
  qed
qed

subsection \<open>Orderings that hold in every run\<close>

lemmas trace_defs = trace_of_def outcome_def probe_line_def events_after_def

lemma shared_only_after_pool:
  "only_after (Resolved InitThreadPool) concerns_wasm_main (trace_of Shared_memory h)"
  by (rule shared_run_cases[of h]) (simp_all add: trace_defs)

lemma pool_resolved_only_after_call:
  "only_after (Invoke InitThreadPool [JNum 2]) (\<lambda>ev. ev = Resolved InitThreadPool)
     (trace_of Shared_memory h)"
  by (rule shared_run_cases[of h]) (simp_all add: trace_defs)

lemma wasm_main_only_after_init:
  "only_after (Resolved Init) (invokes Wasm_main) (trace_of v h)"
proof (cases "v = Shared_memory")
  case True
  show ?thesis unfolding True by (rule shared_run_cases[of h]) (simp_all add: trace_defs)
next
  case False
  show ?thesis by (rule simple_run_cases[OF False, of h]) (simp_all add: trace_defs)
qed

lemma loading_only_after_probe:
  "only_after (probe_line (SharedArrayBuffer_defined h))
     (\<lambda>ev. invokes Init ev \<or> invokes WebAssembly_Memory ev) (trace_of v h)"
proof (cases "v = Shared_memory")
  case True
  show ?thesis unfolding True by (rule shared_run_cases[of h]) (simp_all add: trace_defs)
next
  case False
  show ?thesis by (rule simple_run_cases[OF False, of h]) (simp_all add: trace_defs)
qed

lemma return_followed_by_log:
  "each_followed_by (Returned Wasm_main) (Console_log [JStr ''wasm_main called''])
     (trace_of v h)"
proof (cases "v = Shared_memory")
  case True
  show ?thesis unfolding True by (rule shared_run_cases[of h]) (simp_all add: trace_defs)
next
  case False
  show ?thesis by (rule simple_run_cases[OF False, of h]) (simp_all add: trace_defs)
qed

subsection \<open>Invocation of the entry point\<close>

text \<open>
  Claim C1 as stated fails in the shared-memory script: on a host where \<^verbatim>\<open>init\<close> resolves
  and the module exports \<^verbatim>\<open>wasm_main\<close>, but the promise of \<^verbatim>\<open>initThreadPool(2)\<close> is
  rejected, \<^verbatim>\<open>wasm_main\<close> is never invoked.
\<close>

theorem wasm_main_skipped_when_pool_rejects:
  "\<not> (Resolved Init \<in> set (trace_of Shared_memory host_pool_rejects) \<longrightarrow>
       (list_ex (invokes Wasm_main) (trace_of Shared_memory host_pool_rejects) \<longleftrightarrow>
        wasm_main (glue Shared_memory host_pool_rejects) \<noteq> None))"
  by (simp add: run_defs host_defs)

text \<open>
  Claim C1, amended: when the promise of \<^verbatim>\<open>init\<close> resolves, \<^verbatim>\<open>wasm_main\<close> is invoked if and
  only if the module exports it and, in the shared-memory script, the promise of
  \<^verbatim>\<open>initThreadPool(2)\<close> resolves as well. In all three scripts every invocation of
  \<^verbatim>\<open>wasm_main\<close> comes after the resolution of \<^verbatim>\<open>init\<close>.
\<close>

theorem wasm_main_invoked_iff:
  "(Resolved Init \<in> set (trace_of v h) \<longrightarrow>
      (list_ex (invokes Wasm_main) (trace_of v h) \<longleftrightarrow>
         wasm_main (glue v h) \<noteq> None \<and>
         (v = Shared_memory \<longrightarrow> Resolved InitThreadPool \<in> set (trace_of v h)))) \<and>
   (\<forall>i < length (trace_of v h). invokes Wasm_main (trace_of v h ! i) \<longrightarrow>
      (\<exists>j<i. trace_of v h ! j = Resolved Init))"
proof
  show "Resolved Init \<in> set (trace_of v h) \<longrightarrow>
      (list_ex (invokes Wasm_main) (trace_of v h) \<longleftrightarrow>
         wasm_main (glue v h) \<noteq> None \<and>
         (v = Shared_memory \<longrightarrow> Resolved InitThreadPool \<in> set (trace_of v h)))"
  proof (cases "v = Shared_memory")
    case True
    show ?thesis unfolding True
      by (rule shared_run_cases[of h]) (simp_all add: trace_defs)
  next
    case False
    show ?thesis
      by (rule simple_run_cases[OF False, of h]) (use False in \<open>simp_all add: trace_defs\<close>)
  qed
  show "\<forall>i < length (trace_of v h). invokes Wasm_main (trace_of v h ! i) \<longrightarrow>
      (\<exists>j<i. trace_of v h ! j = Resolved Init)"
    using only_after_nth[OF wasm_main_only_after_init] by simp
qed

text \<open>
  Claim C1, amended, on sample hosts: with everything succeeding \<^verbatim>\<open>wasm_main\<close> is invoked by
  the plain and the shared-memory script; without the export the white-mode script does not
  invoke it.
\<close>

theorem wasm_main_invoked_iff_witness:
  "Resolved Init \<in> set (trace_of Plain host_ok) \<and>
   list_ex (invokes Wasm_main) (trace_of Plain host_ok) \<and>
   wasm_main (glue Plain host_ok) \<noteq> None \<and>
   Resolved Init \<in> set (trace_of Shared_memory host_ok) \<and>
   list_ex (invokes Wasm_main) (trace_of Shared_memory host_ok) \<and>
   Resolved InitThreadPool \<in> set (trace_of Shared_memory host_ok) \<and>
   Resolved Init \<in> set (trace_of White_mode host_no_wasm_main) \<and>
   \<not> list_ex (invokes Wasm_main) (trace_of White_mode host_no_wasm_main)"
  using wasm_main_invoked_iff[of Plain host_ok]
    wasm_main_invoked_iff[of Shared_memory host_ok]
    wasm_main_invoked_iff[of White_mode host_no_wasm_main]
  by (simp add: run_defs host_defs)

subsection \<open>A rejected initialization, with a failure handler\<close>

text \<open>
  Claim C2: in the two scripts that attach \<^verbatim>\<open>.catch\<close>, when the promise of \<^verbatim>\<open>init\<close> is
  rejected with \<open>e\<close> the run consists of the probe's line, the call of \<^verbatim>\<open>init\<close>, its
  rejection and one \<^verbatim>\<open>console.error\<close> line \<^verbatim>\<open>Failed to initialize WASM:\<close> with \<open>e\<close>, and
  nothing after it; the chain ends fulfilled. In particular \<^verbatim>\<open>wasm_main\<close> is not invoked and
  the rejection is logged exactly once.
\<close>

theorem init_rejection_logged_once:
  assumes "v \<noteq> Shared_memory" and "init_default (glue v h) [] = Returns (Rejected e)"
  shows "run v h =
       (Fulfilled (),
        [probe_line (SharedArrayBuffer_defined h), Invoke Init [], Returned Init,
         Rejected_with Init e, Console_error [JStr ''Failed to initialize WASM:'', e]]) \<and>
     \<not> list_ex (invokes Wasm_main) (trace_of v h) \<and>
     filter is_console_error (trace_of v h) =
       [Console_error [JStr ''Failed to initialize WASM:'', e]]"
  by (rule simple_run_cases[OF assms(1), of h]) (use assms in \<open>simp_all add: trace_defs\<close>)

text \<open>Claim C2 on the white-mode script, with a module load that fails.\<close>

theorem init_rejection_logged_once_witness:
  "White_mode \<noteq> Shared_memory \<and>
   init_default (glue White_mode host_init_rejects) [] =
     Returns (Rejected (JError ''network error'')) \<and>
   run White_mode host_init_rejects =
       (Fulfilled (),
        [probe_line True, Invoke Init [], Returned Init,
         Rejected_with Init (JError ''network error''),
         Console_error [JStr ''Failed to initialize WASM:'', JError ''network error'']]) \<and>
   \<not> list_ex (invokes Wasm_main) (trace_of White_mode host_init_rejects)"
  using init_rejection_logged_once[of White_mode host_init_rejects "JError ''network error''"]
  by (simp add: host_defs)

subsection \<open>The worker pool comes first\<close>

text \<open>
  Claim C3: in the shared-memory script the promise returned by \<^verbatim>\<open>initThreadPool(2)\<close> is
  awaited to completion before \<^verbatim>\<open>wasm_main\<close> is considered. The existence test of
  \<^verbatim>\<open>wasm_main\<close> or a call of it occurs in a run only when the host's call
  \<^verbatim>\<open>initThreadPool(2)\<close> returned a promise that was fulfilled: when the call throws, or the
  promise is rejected or never settles, there is no test and no call. The resolution is
  recorded in the trace only for such a fulfilled promise, and every test or call of
  \<^verbatim>\<open>wasm_main\<close> comes after that resolution, which itself comes after the call
  \<^verbatim>\<open>initThreadPool(2)\<close>.
\<close>

theorem wasm_main_only_after_thread_pool:
  "(list_ex concerns_wasm_main (trace_of Shared_memory h) \<longrightarrow>
      initThreadPool (glue Shared_memory h) [JNum 2] = Returns (Fulfilled ())) \<and>
   (Resolved InitThreadPool \<in> set (trace_of Shared_memory h) \<longrightarrow>
      initThreadPool (glue Shared_memory h) [JNum 2] = Returns (Fulfilled ())) \<and>
   (\<forall>i < length (trace_of Shared_memory h).
      trace_of Shared_memory h ! i = Resolved InitThreadPool \<longrightarrow>
      (\<exists>j<i. trace_of Shared_memory h ! j = Invoke InitThreadPool [JNum 2])) \<and>
   (\<forall>i < length (trace_of Shared_memory h).
      concerns_wasm_main (trace_of Shared_memory h ! i) \<longrightarrow>
      (\<exists>j<i. trace_of Shared_memory h ! j = Resolved InitThreadPool))"
proof -
  have "(list_ex concerns_wasm_main (trace_of Shared_memory h) \<longrightarrow>
      initThreadPool (glue Shared_memory h) [JNum 2] = Returns (Fulfilled ())) \<and>
   (Resolved InitThreadPool \<in> set (trace_of Shared_memory h) \<longrightarrow>
      initThreadPool (glue Shared_memory h) [JNum 2] = Returns (Fulfilled ()))"
    by (rule shared_run_cases[of h]) (simp_all add: trace_defs)
  moreover have "\<forall>i < length (trace_of Shared_memory h).
      trace_of Shared_memory h ! i = Resolved InitThreadPool \<longrightarrow>
      (\<exists>j<i. trace_of Shared_memory h ! j = Invoke InitThreadPool [JNum 2])"
    using only_after_nth[OF pool_resolved_only_after_call, of _ h] by simp
  moreover have "\<forall>i < length (trace_of Shared_memory h).
      concerns_wasm_main (trace_of Shared_memory h ! i) \<longrightarrow>
      (\<exists>j<i. trace_of Shared_memory h ! j = Resolved InitThreadPool)"
    using only_after_nth[OF shared_only_after_pool] by simp
  ultimately show ?thesis by blast
qed

text \<open>
  Claim C3 on three hosts. Where everything succeeds the pool's promise is fulfilled, the
  existence test is the event at position 10 and the resolution is found before it. Where
  the pool's promise is rejected, and where it never settles, the run holds no test and no
  call of \<^verbatim>\<open>wasm_main\<close>, although the module is loaded and exports it.
\<close>

theorem wasm_main_only_after_thread_pool_witness:
  "initThreadPool (glue Shared_memory host_ok) [JNum 2] = Returns (Fulfilled ()) \<and>
   10 < length (trace_of Shared_memory host_ok) \<and>
   concerns_wasm_main (trace_of Shared_memory host_ok ! 10) \<and>
   (\<exists>j<10. trace_of Shared_memory host_ok ! j = Resolved InitThreadPool) \<and>
   initThreadPool (glue Shared_memory host_pool_rejects) [JNum 2] =
     Returns (Rejected (JError ''no workers'')) \<and>
   wasm_main (glue Shared_memory host_pool_rejects) \<noteq> None \<and>
   Resolved Init \<in> set (trace_of Shared_memory host_pool_rejects) \<and>
   \<not> list_ex concerns_wasm_main (trace_of Shared_memory host_pool_rejects) \<and>
   initThreadPool (glue Shared_memory host_pool_pending) [JNum 2] = Returns Pending \<and>
   wasm_main (glue Shared_memory host_pool_pending) \<noteq> None \<and>
   Resolved Init \<in> set (trace_of Shared_memory host_pool_pending) \<and>
   \<not> list_ex concerns_wasm_main (trace_of Shared_memory host_pool_pending) \<and>
   outcome Shared_memory host_pool_pending = Pending"
proof -
  have ok: "initThreadPool (glue Shared_memory host_ok) [JNum 2] = Returns (Fulfilled ())"
    and rej: "initThreadPool (glue Shared_memory host_pool_rejects) [JNum 2] =
      Returns (Rejected (JError ''no workers''))"
    and pen: "initThreadPool (glue Shared_memory host_pool_pending) [JNum 2] = Returns Pending"
    by (simp_all add: host_defs)
  have "\<not> list_ex concerns_wasm_main (trace_of Shared_memory host_pool_rejects)"
    using wasm_main_only_after_thread_pool[of host_pool_rejects] rej by auto
  moreover have "\<not> list_ex concerns_wasm_main (trace_of Shared_memory host_pool_pending)"
    using wasm_main_only_after_thread_pool[of host_pool_pending] pen by auto
  moreover have "10 < length (trace_of Shared_memory host_ok) \<and>
     concerns_wasm_main (trace_of Shared_memory host_ok ! 10)"
    by (simp add: run_defs host_defs)
  moreover from this have "\<exists>j<10. trace_of Shared_memory host_ok ! j = Resolved InitThreadPool"
    using wasm_main_only_after_thread_pool[of host_ok] by blast
  moreover have "wasm_main (glue Shared_memory host_pool_rejects) \<noteq> None \<and>
     Resolved Init \<in> set (trace_of Shared_memory host_pool_rejects) \<and>
     wasm_main (glue Shared_memory host_pool_pending) \<noteq> None \<and>
     Resolved Init \<in> set (trace_of Shared_memory host_pool_pending) \<and>
     outcome Shared_memory host_pool_pending = Pending"
    by (simp add: run_defs host_defs)
  ultimately show ?thesis using ok rej pen by blast
qed

subsection \<open>The capability probe is logged first\<close>

text \<open>
  Claim C4: in all three scripts the probe's line is the first event of the run, and every
  call of \<^verbatim>\<open>init\<close> (and the construction of the memory handed to it) comes after it.
\<close>

theorem probe_logged_before_loading:
  "trace_of v h \<noteq> [] \<and> hd (trace_of v h) = probe_line (SharedArrayBuffer_defined h) \<and>
   (\<forall>i < length (trace_of v h).
      invokes Init (trace_of v h ! i) \<or> invokes WebAssembly_Memory (trace_of v h ! i) \<longrightarrow>
      (\<exists>j<i. trace_of v h ! j = probe_line (SharedArrayBuffer_defined h)))"
proof -
  have "trace_of v h \<noteq> [] \<and> hd (trace_of v h) = probe_line (SharedArrayBuffer_defined h)"
  proof (cases "v = Shared_memory")
    case True
    show ?thesis unfolding True
      by (rule shared_run_cases[of h]) (simp_all add: trace_defs)
  next
    case False
    show ?thesis
      by (rule simple_run_cases[OF False, of h]) (simp_all add: trace_defs)
  qed
  moreover have "\<forall>i < length (trace_of v h).
      invokes Init (trace_of v h ! i) \<or> invokes WebAssembly_Memory (trace_of v h ! i) \<longrightarrow>
      (\<exists>j<i. trace_of v h ! j = probe_line (SharedArrayBuffer_defined h))"
    using only_after_nth[OF loading_only_after_probe[of h v]] by (simp add: probe_line_def)
  ultimately show ?thesis by blast
qed

text \<open>
  Claim C4 on the host where everything succeeds: the shared-memory script calls \<^verbatim>\<open>init\<close>
  at position 3 and the plain script at position 1, both after the probe's line.
\<close>

theorem probe_logged_before_loading_witness:
  "3 < length (trace_of Shared_memory host_ok) \<and>
   invokes Init (trace_of Shared_memory host_ok ! 3) \<and>
   (\<exists>j<3. trace_of Shared_memory host_ok ! j = probe_line True) \<and>
   invokes Init (trace_of Plain host_ok ! 1) \<and>
   trace_of Plain host_ok ! 0 = probe_line True"
  using probe_logged_before_loading[of Shared_memory host_ok]
    probe_logged_before_loading[of Plain host_ok]
  by (simp add: run_defs host_defs)

subsection \<open>The capability probe is not acted upon\<close>

text \<open>
  Claim C5: the result of the probe is only logged. Two runs of the same script on hosts that
  differ only in whether \<^verbatim>\<open>SharedArrayBuffer\<close> exists have the same events after the
  probe's line and the same outcome; the probe's line is the first event and carries the
  result.
\<close>

theorem probe_result_not_acted_upon:
  "hd (trace_of v (h\<lparr>SharedArrayBuffer_defined := a\<rparr>)) = probe_line a \<and>
   tl (trace_of v (h\<lparr>SharedArrayBuffer_defined := a\<rparr>)) =
     tl (trace_of v (h\<lparr>SharedArrayBuffer_defined := b\<rparr>)) \<and>
   outcome v (h\<lparr>SharedArrayBuffer_defined := a\<rparr>) =
     outcome v (h\<lparr>SharedArrayBuffer_defined := b\<rparr>)"
  by (cases v) (auto simp: run_defs split: run_splits)

text \<open>
  Claim C5 on the host where everything succeeds, for the shared-memory script: with and
  without \<^verbatim>\<open>SharedArrayBuffer\<close> only the first line differs.
\<close>

theorem probe_result_not_acted_upon_witness:
  "hd (trace_of Shared_memory (host_ok\<lparr>SharedArrayBuffer_defined := False\<rparr>)) = probe_line False \<and>
   hd (trace_of Shared_memory (host_ok\<lparr>SharedArrayBuffer_defined := True\<rparr>)) = probe_line True \<and>
   tl (trace_of Shared_memory (host_ok\<lparr>SharedArrayBuffer_defined := False\<rparr>)) =
     tl (trace_of Shared_memory (host_ok\<lparr>SharedArrayBuffer_defined := True\<rparr>)) \<and>
   outcome Shared_memory (host_ok\<lparr>SharedArrayBuffer_defined := False\<rparr>) = Fulfilled ()"
  using probe_result_not_acted_upon[where v = Shared_memory and h = host_ok and a = False and b = True]
    probe_result_not_acted_upon[where v = Shared_memory and h = host_ok and a = True and b = False]
  by (simp add: run_defs host_defs)

subsection \<open>A module without the entry point\<close>

text \<open>
  Claim C6 as stated fails in the shared-memory script: with no \<^verbatim>\<open>wasm_main\<close> exported and
  \<^verbatim>\<open>init\<close> resolved, the script goes on after the line \<^verbatim>\<open>WASM module initialized\<close> and
  calls \<^verbatim>\<open>initThreadPool(2)\<close>, and when that promise is rejected the run ends with an
  error.
\<close>

theorem pool_failure_without_wasm_main:
  "wasm_main (glue Shared_memory host_no_wasm_main_pool_rejects) = None \<and>
   Resolved Init \<in> set (trace_of Shared_memory host_no_wasm_main_pool_rejects) \<and>
   outcome Shared_memory host_no_wasm_main_pool_rejects = Rejected (JError ''no workers'') \<and>
   events_after (Console_log [JStr ''WASM module initialized''])
       (trace_of Shared_memory host_no_wasm_main_pool_rejects) =
     [Invoke InitThreadPool [JNum 2], Returned InitThreadPool,
      Rejected_with InitThreadPool (JError ''no workers'')]"
  by (simp add: run_defs host_defs events_after_def)

text \<open>
  Claim C6, amended: when the module is loaded (the promise of \<^verbatim>\<open>init\<close> resolves) and exports
  no \<^verbatim>\<open>wasm_main\<close>, every script logs \<^verbatim>\<open>WASM module initialized\<close>, never invokes
  \<^verbatim>\<open>wasm_main\<close> and never logs \<^verbatim>\<open>wasm_main called\<close>. In the two simple scripts nothing but
  the existence test follows that line and the run ends without an error. In the
  shared-memory script the call of \<^verbatim>\<open>initThreadPool(2)\<close> follows that line; when its promise
  resolves, nothing but the existence test comes after and the run ends without an error.
\<close>

theorem no_wasm_main_scenario:
  assumes "wasm_main (glue v h) = None" and "Resolved Init \<in> set (trace_of v h)"
  shows "Console_log [JStr ''WASM module initialized''] \<in> set (trace_of v h) \<and>
     Console_log [JStr ''wasm_main called''] \<notin> set (trace_of v h) \<and>
     \<not> list_ex (invokes Wasm_main) (trace_of v h) \<and>
     (v \<noteq> Shared_memory \<longrightarrow>
        outcome v h = Fulfilled () \<and>
        events_after (Console_log [JStr ''WASM module initialized'']) (trace_of v h) =
          [Tested_wasm_main False]) \<and>
     (v = Shared_memory \<longrightarrow>
        events_after (Console_log [JStr ''WASM module initialized'']) (trace_of v h) \<noteq> [] \<and>
        hd (events_after (Console_log [JStr ''WASM module initialized'']) (trace_of v h)) =
          Invoke InitThreadPool [JNum 2]) \<and>
     (v = Shared_memory \<and> Resolved InitThreadPool \<in> set (trace_of v h) \<longrightarrow>
        outcome v h = Fulfilled () \<and>
        events_after (Console_log [JStr ''WASM module initialized'']) (trace_of v h) =
          [Invoke InitThreadPool [JNum 2], Returned InitThreadPool, Resolved InitThreadPool,
           Tested_wasm_main False])"
proof (cases "v = Shared_memory")
  case True
  with assms have shared: "wasm_main (glue Shared_memory h) = None"
    "Resolved Init \<in> set (trace_of Shared_memory h)" by simp_all
  show ?thesis unfolding True
    by (rule shared_run_cases[of h]) (use shared in \<open>simp_all add: trace_defs\<close>)
next
  case False
  show ?thesis
    by (rule simple_run_cases[OF False, of h]) (use assms False in \<open>simp_all add: trace_defs\<close>)
qed

text \<open>
  Claim C6, amended, on a host whose module exports no \<^verbatim>\<open>wasm_main\<close>: the plain and the
  shared-memory script both end without an error.
\<close>

theorem no_wasm_main_scenario_witness:
  "wasm_main (glue Plain host_no_wasm_main) = None \<and>
   Resolved Init \<in> set (trace_of Plain host_no_wasm_main) \<and>
   outcome Plain host_no_wasm_main = Fulfilled () \<and>
   events_after (Console_log [JStr ''WASM module initialized''])
       (trace_of Plain host_no_wasm_main) = [Tested_wasm_main False] \<and>
   wasm_main (glue Shared_memory host_no_wasm_main) = None \<and>
   Resolved Init \<in> set (trace_of Shared_memory host_no_wasm_main) \<and>
   Resolved InitThreadPool \<in> set (trace_of Shared_memory host_no_wasm_main) \<and>
   outcome Shared_memory host_no_wasm_main = Fulfilled ()"
  using no_wasm_main_scenario[of Plain host_no_wasm_main]
    no_wasm_main_scenario[of Shared_memory host_no_wasm_main]
  by (simp add: run_defs host_defs)

subsection \<open>A module load that fails\<close>

text \<open>
  Claim C7: in the two scripts that attach \<^verbatim>\<open>.catch\<close>, when the module load is rejected with
  an error, the line \<^verbatim>\<open>Failed to initialize WASM:\<close> followed by that error is logged (it is
  the last event of the run) and \<^verbatim>\<open>wasm_main called\<close> is never logged.
\<close>

theorem load_failure_scenario:
  assumes "v \<noteq> Shared_memory" and "init_default (glue v h) [] = Returns (Rejected e)"
  shows "Console_error [JStr ''Failed to initialize WASM:'', e] \<in> set (trace_of v h) \<and>
     last (trace_of v h) = Console_error [JStr ''Failed to initialize WASM:'', e] \<and>
     Console_log [JStr ''wasm_main called''] \<notin> set (trace_of v h)"
  by (rule simple_run_cases[OF assms(1), of h]) (use assms in \<open>simp_all add: trace_defs\<close>)

text \<open>Claim C7 on the plain script, with a load rejected with "network error".\<close>

theorem load_failure_scenario_witness:
  "Plain \<noteq> Shared_memory \<and>
   init_default (glue Plain host_init_rejects) [] =
     Returns (Rejected (JError ''network error'')) \<and>
   Console_error [JStr ''Failed to initialize WASM:'', JError ''network error'']
     \<in> set (trace_of Plain host_init_rejects) \<and>
   Console_log [JStr ''wasm_main called''] \<notin> set (trace_of Plain host_init_rejects)"
  using load_failure_scenario[of Plain host_init_rejects "JError ''network error''"]
  by (simp add: host_defs)

subsection \<open>A rejected promise, without a failure handler\<close>

text \<open>
  Claim C8: the shared-memory script has no failure handler. It never writes with
  \<^verbatim>\<open>console.error\<close>; and when the promise of \<^verbatim>\<open>init\<close> or of \<^verbatim>\<open>initThreadPool\<close> is rejected
  with \<open>e\<close>, nothing follows the rejection in the trace (no log line, no recovery),
  \<^verbatim>\<open>wasm_main\<close> is not invoked, and the chain ends rejected with \<open>e\<close>, which is what reaches
  the host as an unhandled rejection.
\<close>

theorem shared_memory_rejection_unhandled:
  "\<not> list_ex is_console_error (trace_of Shared_memory h) \<and>
   (Rejected_with c e \<in> set (trace_of Shared_memory h) \<longrightarrow>
      (c = Init \<or> c = InitThreadPool) \<and>
      events_after (Rejected_with c e) (trace_of Shared_memory h) = [] \<and>
      outcome Shared_memory h = Rejected e \<and>
      \<not> list_ex (invokes Wasm_main) (trace_of Shared_memory h))"
  by (rule shared_run_cases[of h]) (auto simp: trace_defs)

text \<open>
  Claim C8 on two hosts: one where the promise of \<^verbatim>\<open>init\<close> is rejected and one where the
  promise of \<^verbatim>\<open>initThreadPool\<close> is.
\<close>

theorem shared_memory_rejection_unhandled_witness:
  "Rejected_with Init (JError ''network error'')
     \<in> set (trace_of Shared_memory host_init_rejects) \<and>
   outcome Shared_memory host_init_rejects = Rejected (JError ''network error'') \<and>
   events_after (Rejected_with Init (JError ''network error''))
     (trace_of Shared_memory host_init_rejects) = [] \<and>
   Rejected_with InitThreadPool (JError ''no workers'')
     \<in> set (trace_of Shared_memory host_pool_rejects) \<and>
   outcome Shared_memory host_pool_rejects = Rejected (JError ''no workers'') \<and>
   \<not> list_ex (invokes Wasm_main) (trace_of Shared_memory host_pool_rejects)"
  using shared_memory_rejection_unhandled[of host_init_rejects Init "JError ''network error''"]
    shared_memory_rejection_unhandled[of host_pool_rejects InitThreadPool "JError ''no workers''"]
  by (simp add: run_defs host_defs)

subsection \<open>The configuration of the shared-memory script\<close>

text \<open>
  Claim C9 as stated fails: on a host where the promise of \<^verbatim>\<open>init\<close> is rejected, \<^verbatim>\<open>init\<close> is
  called but \<^verbatim>\<open>initThreadPool\<close> is never called, so it is not called exactly once.
\<close>

theorem thread_pool_not_started_when_init_rejects:
  "list_ex (invokes Init) (trace_of Shared_memory host_init_rejects) \<and>
   length (filter (invokes InitThreadPool) (trace_of Shared_memory host_init_rejects)) = 0 \<and>
   \<not> length (filter (invokes InitThreadPool) (trace_of Shared_memory host_init_rejects)) = 1"
  by (simp add: run_defs host_defs)

text \<open>
  Claim C9, amended: in the shared-memory script every call of \<^verbatim>\<open>init\<close> has the one
  configuration (the module URL \<^verbatim>\<open>./pkg/prezentare_licenta.wasm\<close> relative to the script, and
  a memory of 200 initial pages, 16384 maximum pages, shared), and \<^verbatim>\<open>init\<close> is called exactly
  once when the construction of that memory succeeds and not at all otherwise. Every call of
  \<^verbatim>\<open>initThreadPool\<close> has the worker count 2, and \<^verbatim>\<open>initThreadPool\<close> is called exactly once
  when the promise of \<^verbatim>\<open>init\<close> resolves and not at all otherwise.
\<close>

theorem shared_memory_configuration:
  "(\<forall>ev \<in> set (trace_of Shared_memory h). invokes Init ev \<longrightarrow>
      ev = Invoke Init
             [JObj [(''module'', JURL ''./pkg/prezentare_licenta.wasm'' (import_meta_url h)),
                    (''memory'', JMemory (JObj [(''initial'', JNum 200),
                                                (''maximum'', JNum 16384),
                                                (''shared'', JBool True)]))]]) \<and>
   length (filter (invokes Init) (trace_of Shared_memory h)) =
     (if Memory_ctor_throws h
           (JObj [(''initial'', JNum 200), (''maximum'', JNum 16384), (''shared'', JBool True)])
         = None
      then 1 else 0) \<and>
   (\<forall>ev \<in> set (trace_of Shared_memory h). invokes InitThreadPool ev \<longrightarrow>
      ev = Invoke InitThreadPool [JNum 2]) \<and>
   length (filter (invokes InitThreadPool) (trace_of Shared_memory h)) =
     (if Resolved Init \<in> set (trace_of Shared_memory h) then 1 else 0)"
  by (rule shared_run_cases[of h]) (simp_all add: trace_defs)

text \<open>Claim C9, amended, on the host where everything succeeds.\<close>

theorem shared_memory_configuration_witness:
  "Invoke Init
     [JObj [(''module'', JURL ''./pkg/prezentare_licenta.wasm'' ''https://example.org/main.js''),
            (''memory'', JMemory (JObj [(''initial'', JNum 200),
                                        (''maximum'', JNum 16384),
                                        (''shared'', JBool True)]))]]
     \<in> set (trace_of Shared_memory host_ok) \<and>
   Invoke InitThreadPool [JNum 2] \<in> set (trace_of Shared_memory host_ok) \<and>
   Resolved Init \<in> set (trace_of Shared_memory host_ok) \<and>
   length (filter (invokes Init) (trace_of Shared_memory host_ok)) = 1 \<and>
   length (filter (invokes InitThreadPool) (trace_of Shared_memory host_ok)) = 1"
  using shared_memory_configuration[of host_ok]
  by (simp add: run_defs host_defs)

subsection \<open>The line logged after the entry point\<close>

text \<open>
  Claim C10 as stated fails: on a host whose \<^verbatim>\<open>wasm_main\<close> throws, the plain script invokes
  \<^verbatim>\<open>wasm_main\<close> but never logs \<^verbatim>\<open>wasm_main called\<close>.
\<close>

theorem no_log_when_wasm_main_throws:
  "\<not> (Console_log [JStr ''wasm_main called''] \<in> set (trace_of Plain host_wasm_main_throws) \<longleftrightarrow>
       list_ex (invokes Wasm_main) (trace_of Plain host_wasm_main_throws))"
  by (simp add: run_defs host_defs)

text \<open>
  Claim C10, amended: in every script and every run \<^verbatim>\<open>wasm_main\<close> is invoked at most once;
  the line \<^verbatim>\<open>wasm_main called\<close> is logged if and only if \<^verbatim>\<open>wasm_main\<close> was invoked and
  returned normally; it is logged at most once; and whenever the invocation returns, that
  line is the very next event.
\<close>

theorem wasm_main_called_logged_iff_returned:
  "length (filter (invokes Wasm_main) (trace_of v h)) \<le> 1 \<and>
   (Console_log [JStr ''wasm_main called''] \<in> set (trace_of v h) \<longleftrightarrow>
      list_ex (invokes Wasm_main) (trace_of v h) \<and> Returned Wasm_main \<in> set (trace_of v h)) \<and>
   count_list (trace_of v h) (Console_log [JStr ''wasm_main called'']) \<le> 1 \<and>
   (\<forall>i < length (trace_of v h). trace_of v h ! i = Returned Wasm_main \<longrightarrow>
      Suc i < length (trace_of v h) \<and>
      trace_of v h ! Suc i = Console_log [JStr ''wasm_main called''])"
proof -
  have "length (filter (invokes Wasm_main) (trace_of v h)) \<le> 1 \<and>
   (Console_log [JStr ''wasm_main called''] \<in> set (trace_of v h) \<longleftrightarrow>
      list_ex (invokes Wasm_main) (trace_of v h) \<and> Returned Wasm_main \<in> set (trace_of v h)) \<and>
   count_list (trace_of v h) (Console_log [JStr ''wasm_main called'']) \<le> 1"
  proof (cases "v = Shared_memory")
    case True
    show ?thesis unfolding True
      by (rule shared_run_cases[of h]) (simp_all add: trace_defs)
  next
    case False
    show ?thesis
      by (rule simple_run_cases[OF False, of h]) (simp_all add: trace_defs)
  qed
  moreover have "\<forall>i < length (trace_of v h). trace_of v h ! i = Returned Wasm_main \<longrightarrow>
      Suc i < length (trace_of v h) \<and>
      trace_of v h ! Suc i = Console_log [JStr ''wasm_main called'']"
    using each_followed_by_nth[OF return_followed_by_log] by blast
  ultimately show ?thesis by blast
qed

text \<open>
  Claim C10, amended, on the host where everything succeeds: in the plain script the return
  of \<^verbatim>\<open>wasm_main\<close> is the event at position 7 and the line follows at position 8.
\<close>

theorem wasm_main_called_logged_iff_returned_witness:
  "7 < length (trace_of Plain host_ok) \<and>
   trace_of Plain host_ok ! 7 = Returned Wasm_main \<and>
   trace_of Plain host_ok ! 8 = Console_log [JStr ''wasm_main called''] \<and>
   length (filter (invokes Wasm_main) (trace_of Plain host_ok)) = 1"
  using wasm_main_called_logged_iff_returned[of Plain host_ok]
  by (simp add: run_defs host_defs)

end
